theory Spec2Isabelle
  imports Main
begin

section \<open>Informer: form values gathered into a nested object\<close>

text \<open>
  The repository holds three generations of one JavaScript module.  The oldest
  (\<^verbatim>\<open>function Informer(params)\<close>, first half of \<^verbatim>\<open>src/informer.js\<close>) gathers
  values with the attributes \<^verbatim>\<open>group\<close> and \<^verbatim>\<open>pargroup\<close> by repeated passes.  The
  second (\<^verbatim>\<open>var Informer = (function () ...\<close>, second half of the same file) groups
  by a colon separated \<^verbatim>\<open>group\<close> path and carries its own \<^verbatim>\<open>buildNestedObject\<close>,
  \<^verbatim>\<open>mergeObjects\<close> and \<^verbatim>\<open>stringToFunction\<close>.  The third (the code block of
  \<^verbatim>\<open>src/readme.md\<close>) adds the configuration store and \<^verbatim>\<open>clearFormValues\<close>.  None
  of them runs in strict mode.

  Modelling conventions.
  \<^item> A JavaScript object is the list of its own enumerable properties, in the order
    in which \<^verbatim>\<open>for (key in obj)\<close> visits them: array indices first, ascending, then
    the other keys in creation order.  Its prototype is \<^verbatim>\<open>Object.prototype\<close>, whose
    members (\<open>proto_members\<close>) every read, every test \<^verbatim>\<open>key in obj\<close> and every call
    through the object sees when the object has no property of that name.
  \<^item> A value stored in a tree is a string (the \<^verbatim>\<open>value\<close> of a form control) or an
    object.  The built-in objects (the functions that \<^verbatim>\<open>Object.prototype\<close>,
    \<^verbatim>\<open>String.prototype\<close> and \<^verbatim>\<open>Function.prototype\<close> hold, and these objects
    themselves) are state shared by the whole page and are not values of the model.
    Where the code takes one of them as a value and goes on with it (stores it in a
    tree, writes a property of it, makes an object the prototype of another) the run
    is followed no further: the result is \<open>Inl (Builtin_member k)\<close>, \<open>k\<close> being the
    member through which the built-in object was reached.
  \<^item> A thrown exception is a result \<open>Inl TypeError\<close>; a recursion of the source that
    need not end is a \<^theory_text>\<open>partial_function\<close> whose result \<open>None\<close> stands for not
    returning.
  \<^item> The calls of \<^verbatim>\<open>log\<close> / \<^verbatim>\<open>console.log\<close> that only trace the computation are
    left out; console output is modelled where an operation reports a diagnostic.
\<close>

subsection \<open>Values and objects\<close>

datatype jsval = Str string | Obj "(string \<times> jsval) list"

type_synonym props = "(string \<times> jsval) list"

datatype error = TypeError | Builtin_member string

text \<open>
  The members of \<^verbatim>\<open>Object.prototype\<close>.  All are functions, except \<^verbatim>\<open>__proto__\<close>, an
  accessor: read, it gives the prototype; assigned an object, it replaces the
  prototype; assigned a string, it does nothing.  None is enumerable.
\<close>

definition proto_members :: "string list" where
  "proto_members =
     [''constructor'', ''hasOwnProperty'', ''isPrototypeOf'', ''propertyIsEnumerable'',
      ''toLocaleString'', ''toString'', ''valueOf'', ''__defineGetter__'', ''__defineSetter__'',
      ''__lookupGetter__'', ''__lookupSetter__'', ''__proto__'']"

text \<open>
  The read \<^verbatim>\<open>obj[k]\<close>: the object's own property, or the member it inherits, or
  \<^verbatim>\<open>undefined\<close>.
\<close>

datatype read = Undefined | Own jsval | Inherited

definition read_prop :: "props \<Rightarrow> string \<Rightarrow> read" where
  "read_prop obj k =
     (case map_of obj k of
        Some v \<Rightarrow> Own v
      | None \<Rightarrow> if k \<in> set proto_members then Inherited else Undefined)"

text \<open>
  \<^verbatim>\<open>v.constructor == Object\<close>.  A string has the constructor \<^verbatim>\<open>String\<close>.  An object
  inherits the constructor \<^verbatim>\<open>Object\<close> unless it owns a property \<^verbatim>\<open>constructor\<close>; the
  value of that property is then compared with the function by \<^verbatim>\<open>==\<close>, which
  converts the function to its source text when the value is a string (the text
  below is that of V8; engines differ in its white space).
\<close>

definition Object_text :: string where
  "Object_text = ''function Object() { [native code] }''"

fun constructor_is_Object :: "jsval \<Rightarrow> bool" where
  "constructor_is_Object (Str s) = False"
| "constructor_is_Object (Obj ps) =
     (case map_of ps ''constructor'' of
        None \<Rightarrow> True
      | Some (Str s) \<Rightarrow> s = Object_text
      | Some (Obj c) \<Rightarrow> False)"

text \<open>
  Array indices: the canonical decimal numerals below \<open>2^32 - 1\<close>.  The value is
  computed over \<open>int\<close>.
\<close>

definition is_digit :: "char \<Rightarrow> bool" where
  "is_digit c = (48 \<le> (of_char c :: int) \<and> (of_char c :: int) \<le> 57)"

definition dec_val :: "string \<Rightarrow> int" where
  "dec_val k = foldl (\<lambda>n c. 10 * n + ((of_char c :: int) - 48)) 0 k"

definition is_index :: "string \<Rightarrow> bool" where
  "is_index k =
     (k \<noteq> [] \<and> list_all is_digit k \<and> (k = ''0'' \<or> hd k \<noteq> CHR ''0'') \<and> dec_val k < 4294967295)"

fun insert_index :: "props \<Rightarrow> string \<Rightarrow> jsval \<Rightarrow> props" where
  "insert_index [] k v = [(k, v)]"
| "insert_index ((k', v') # rest) k v =
     (if is_index k' \<and> dec_val k' < dec_val k then (k', v') # insert_index rest k v
      else (k, v) # (k', v') # rest)"

fun replace_prop :: "props \<Rightarrow> string \<Rightarrow> jsval \<Rightarrow> props" where
  "replace_prop [] k v = []"
| "replace_prop ((k', v') # rest) k v =
     (if k' = k then (k, v) # rest else (k', v') # replace_prop rest k v)"

text \<open>
  The own properties of \<^verbatim>\<open>obj\<close> after \<^verbatim>\<open>obj[k] = v\<close>: an existing property keeps
  its place, a new one is created, also under the name of a function that the object
  inherits.  The assignment \<^verbatim>\<open>obj['__proto__'] = v\<close> to an object that does not own
  such a property creates none.
\<close>

definition assign :: "props \<Rightarrow> string \<Rightarrow> jsval \<Rightarrow> props" where
  "assign obj k v =
     (if map_of obj k \<noteq> None then replace_prop obj k v
      else if k = ''__proto__'' then obj
      else if is_index k then insert_index obj k v
      else obj @ [(k, v)])"

text \<open>
  \<^verbatim>\<open>obj[k] = v\<close>, for a value that may be an object: an object assigned to the
  inherited \<^verbatim>\<open>__proto__\<close> becomes the prototype of \<^verbatim>\<open>obj\<close>.
\<close>

definition put :: "props \<Rightarrow> string \<Rightarrow> jsval \<Rightarrow> error + props" where
  "put obj k v =
     (if k = ''__proto__'' \<and> map_of obj k = None \<and> (case v of Obj ps \<Rightarrow> True | Str s \<Rightarrow> False)
      then Inl (Builtin_member k)
      else Inr (assign obj k v))"

text \<open>
  An attribute as the scripts hold it: the result of \<^verbatim>\<open>getAttribute\<close> (\<^verbatim>\<open>null\<close> or a
  string), or that result after \<^verbatim>\<open>|| false\<close>.
\<close>

datatype attrval = ANull | AFalse | AStr string

fun attr_truthy :: "attrval \<Rightarrow> bool" where
  "attr_truthy (AStr s) = (s \<noteq> [])"
| "attr_truthy ANull = False"
| "attr_truthy AFalse = False"

text \<open>The property name an attribute value becomes when it is used as a key.\<close>

fun key_of :: "attrval \<Rightarrow> string" where
  "key_of (AStr s) = s"
| "key_of ANull = ''null''"
| "key_of AFalse = ''false''"

fun of_attr :: "string option \<Rightarrow> attrval" where
  "of_attr None = ANull"
| "of_attr (Some s) = AStr s"

text \<open>\<^verbatim>\<open>a || b\<close>.\<close>

definition js_or :: "attrval \<Rightarrow> attrval \<Rightarrow> attrval" where
  "js_or a b = (if attr_truthy a then a else b)"

subsection \<open>The document\<close>

record element =
  tagName :: string
  attributes :: "(string \<times> string) list"
  elem_value :: string

record form =
  form_attributes :: "(string \<times> string) list"
  form_elements :: "element list"

definition getAttribute :: "(string \<times> string) list \<Rightarrow> string \<Rightarrow> string option" where
  "getAttribute attrs a = map_of attrs a"

definition hasAttribute :: "(string \<times> string) list \<Rightarrow> string \<Rightarrow> bool" where
  "hasAttribute attrs a = (map_of attrs a \<noteq> None)"

definition getElementsByTagName :: "form \<Rightarrow> string \<Rightarrow> element list" where
  "getElementsByTagName f t = filter (\<lambda>e. tagName e = t) (form_elements f)"

definition input_types :: "string list" where
  "input_types = [''input'', ''select'', ''textarea'']"

subsection \<open>Colon-path grouping (second and third generation)\<close>

text \<open>
  \<^verbatim>\<open>String.prototype.split\<close> with a one-character separator: the result is never
  empty.
\<close>

fun split_on :: "char \<Rightarrow> string \<Rightarrow> string list" where
  "split_on c [] = [[]]"
| "split_on c (x # xs) =
     (if x = c then [] # split_on c xs
      else (case split_on c xs of w # ws \<Rightarrow> (x # w) # ws | [] \<Rightarrow> [[x]]))"

text \<open>
  \<^verbatim>\<open>obj[k] = mergeObjects(obj[k], obj2)\<close> where \<^verbatim>\<open>obj[k]\<close> is the built-in object that
  \<^verbatim>\<open>obj\<close> inherits as its member \<open>k\<close>.  The call writes each property of \<^verbatim>\<open>obj2\<close>
  into the built-in object, after the call of \<^verbatim>\<open>obj2.hasOwnProperty\<close>; with no
  property to write, it returns the built-in object as it is, and the assignment
  leaves the prototype what it was when \<open>k\<close> is \<^verbatim>\<open>__proto__\<close>, and stores a built-in
  function in \<^verbatim>\<open>obj\<close> otherwise.
\<close>

definition merge_into_member :: "props \<Rightarrow> string \<Rightarrow> props \<Rightarrow> error + props" where
  "merge_into_member obj k obj2 =
     (if obj2 \<noteq> [] \<and> map_of obj2 ''hasOwnProperty'' \<noteq> None then Inl TypeError
      else if obj2 = [] \<and> k = ''__proto__'' then Inr obj
      else Inl (Builtin_member k))"

text \<open>
  The loop of \<^verbatim>\<open>mergeObjects(obj1, obj2)\<close>.  The first argument is \<^verbatim>\<open>obj1\<close> as the
  iterations made so far have left it, or what ended them; the second is what
  \<^verbatim>\<open>for (var key in obj2)\<close> has still to visit, at first all of \<^verbatim>\<open>obj2\<close>.  The guard
  \<^verbatim>\<open>obj2.hasOwnProperty(key)\<close> calls the inherited function, which answers true for
  a property visited, unless \<^verbatim>\<open>obj2\<close> owns a property of that name: its value, a
  string or an object, cannot be called, and the first iteration throws.  In the test
  \<^verbatim>\<open>obj1[key] && obj1[key].constructor == Object && obj2[key].constructor == Object\<close>
  the read \<^verbatim>\<open>obj1[key]\<close> sees inherited members: a function, whose constructor is
  \<^verbatim>\<open>Function\<close>, or under \<^verbatim>\<open>__proto__\<close> the object \<^verbatim>\<open>Object.prototype\<close>, whose
  constructor is \<^verbatim>\<open>Object\<close>.
\<close>

function (sequential) merge_from :: "error + props \<Rightarrow> props \<Rightarrow> error + props" where
  "merge_from (Inl e) todo = Inl e"
| "merge_from (Inr obj1) [] = Inr obj1"
| "merge_from (Inr obj1) ((key, v2) # rest) =
     (if map_of ((key, v2) # rest) ''hasOwnProperty'' \<noteq> None then Inl TypeError
      else
        merge_from
          (case read_prop obj1 key of
             Own (Obj o1) \<Rightarrow>
               (case v2 of
                  Obj o2 \<Rightarrow>
                    (if constructor_is_Object (Obj o1) \<and> constructor_is_Object (Obj o2)
                     then (case merge_from (Inr o1) o2 of
                             Inl e \<Rightarrow> Inl e
                           | Inr merged \<Rightarrow> put obj1 key (Obj merged))
                     else put obj1 key v2)
                | Str s \<Rightarrow> put obj1 key v2)
           | Own (Str s) \<Rightarrow> put obj1 key v2
           | Inherited \<Rightarrow>
               (case v2 of
                  Obj o2 \<Rightarrow>
                    (if key = ''__proto__'' \<and> constructor_is_Object (Obj o2)
                     then merge_into_member obj1 key o2
                     else put obj1 key v2)
                | Str s \<Rightarrow> put obj1 key v2)
           | Undefined \<Rightarrow> put obj1 key v2)
          rest)"
  by pat_completeness auto
termination
  by (relation "measure (\<lambda>(r, todo). size_list (size_prod (\<lambda>k. 0) size) todo)") auto

definition mergeObjects :: "props \<Rightarrow> props \<Rightarrow> error + props" where
  "mergeObjects obj1 obj2 = merge_from (Inr obj1) obj2"

text \<open>\<^verbatim>\<open>keys[i]\<close> as a property name: \<^verbatim>\<open>undefined\<close> out of range.\<close>

definition key_at :: "string list \<Rightarrow> nat \<Rightarrow> string" where
  "key_at keys i = (if i < length keys then keys ! i else ''undefined'')"

text \<open>
  \<^verbatim>\<open>buildNestedObject(keys, end_val)\<close>; \<open>end_val = None\<close> is \<^verbatim>\<open>undefined\<close>.  The
  object \<^verbatim>\<open>ret\<close> is empty when \<^verbatim>\<open>keys[0] in ret\<close> is evaluated, so the test holds
  exactly for the members of \<^verbatim>\<open>Object.prototype\<close>, and \<^verbatim>\<open>ret[keys[0]]\<close> is then a
  built-in object.  On the empty array the source calls itself on \<^verbatim>\<open>keys.slice(1)\<close>,
  the empty array again.
\<close>

partial_function (option) buildNestedObject ::
  "string list \<Rightarrow> jsval option \<Rightarrow> (error + props) option" where
  "buildNestedObject keys end_val =
     (if length keys = 1 then
        (if key_at keys 0 \<in> set proto_members then
           (case end_val of
              None \<Rightarrow> Some (Inr [])
            | Some (Obj e) \<Rightarrow>
                (if constructor_is_Object (Obj e)
                 then Some (merge_into_member [] (key_at keys 0) e)
                 else Some (put [] (key_at keys 0) (Obj e)))
            | Some (Str s) \<Rightarrow> Some (put [] (key_at keys 0) (Str s)))
         else
           Some (put [] (key_at keys 0) (case end_val of None \<Rightarrow> Obj [] | Some ev \<Rightarrow> ev)))
      else
        Option.bind (buildNestedObject (drop 1 keys) end_val)
          (\<lambda>r. case r of
                  Inl e \<Rightarrow> Some (Inl e)
                | Inr inner \<Rightarrow> Some (put [] (key_at keys 0) (Obj inner))))"

declare buildNestedObject.simps [code]

text \<open>
  The value object of one element.  \<^verbatim>\<open>elemToObject\<close> is only called with the
  default \<^verbatim>\<open>value_attributes = ['name', 'group']\<close>, each read as
  \<^verbatim>\<open>elem.getAttribute(a) || false\<close>.
\<close>

record val_obj =
  vo_value :: string
  vo_name :: attrval
  vo_group :: attrval

definition elemToObject :: "element \<Rightarrow> val_obj" where
  "elemToObject elem =
     \<lparr> vo_value = elem_value elem,
       vo_name = js_or (of_attr (getAttribute (attributes elem) ''name'')) AFalse,
       vo_group = js_or (of_attr (getAttribute (attributes elem) ''group'')) AFalse \<rparr>"

definition elemsToObjs :: "form \<Rightarrow> val_obj list" where
  "elemsToObjs f = concat (map (\<lambda>t. map elemToObject (getElementsByTagName f t)) input_types)"

text \<open>
  The loop of \<^verbatim>\<open>groupValues\<close>, from the accumulated \<^verbatim>\<open>vals_struct\<close>.  The object
  \<^verbatim>\<open>form_val\<close> is \<^verbatim>\<open>{ }\<close> after \<^verbatim>\<open>form_val[name] = value\<close>.
\<close>

fun groupValues_from :: "props \<Rightarrow> val_obj list \<Rightarrow> (error + props) option" where
  "groupValues_from vals_struct [] = Some (Inr vals_struct)"
| "groupValues_from vals_struct (vo # rest) =
     (if attr_truthy (vo_group vo) then
        (case buildNestedObject (split_on CHR '':'' (key_of (vo_group vo)))
                (Some (Obj (assign [] (key_of (vo_name vo)) (Str (vo_value vo))))) of
           None \<Rightarrow> None
         | Some (Inl e) \<Rightarrow> Some (Inl e)
         | Some (Inr val_struct) \<Rightarrow>
             (case mergeObjects vals_struct val_struct of
                Inl e \<Rightarrow> Some (Inl e)
              | Inr merged \<Rightarrow> groupValues_from merged rest))
      else groupValues_from (assign vals_struct (key_of (vo_name vo)) (Str (vo_value vo))) rest)"

definition groupValues :: "val_obj list \<Rightarrow> (error + props) option" where
  "groupValues val_objs = groupValues_from [] val_objs"

definition gatherTheValues :: "form \<Rightarrow> (error + props) option" where
  "gatherTheValues f = groupValues (elemsToObjs f)"

text \<open>
  \<^verbatim>\<open>toObject(form, transform)\<close>; \<open>unnamed_form_key\<close> is \<^verbatim>\<open>conf.unnamed_form_key\<close>,
  \<open>transform = None\<close> is a value that is not a function.
\<close>

definition toObject ::
  "attrval \<Rightarrow> form \<Rightarrow> (jsval \<Rightarrow> jsval) option \<Rightarrow> (error + jsval) option" where
  "toObject unnamed_form_key f transform =
     (let key = js_or (js_or (of_attr (getAttribute (form_attributes f) ''name''))
                             (of_attr (getAttribute (form_attributes f) ''id'')))
                      unnamed_form_key
      in case gatherTheValues f of
           None \<Rightarrow> None
         | Some (Inl e) \<Rightarrow> Some (Inl e)
         | Some (Inr gathered) \<Rightarrow>
             (let valobj = (case transform of Some t \<Rightarrow> t (Obj gathered) | None \<Rightarrow> Obj gathered)
              in if attr_truthy key then
                   (case put [] (key_of key) valobj of
                      Inl e \<Rightarrow> Some (Inl e)
                    | Inr vals \<Rightarrow> Some (Inr (Obj vals)))
                 else Some (Inr valobj)))"

subsection \<open>Group / pargroup gathering (first generation)\<close>

text \<open>
  One entry of the \<^verbatim>\<open>elements\<close> array of \<^verbatim>\<open>this.gatherTheValues\<close>: \<^verbatim>\<open>name\<close> is
  the raw result of \<^verbatim>\<open>getAttribute\<close>, \<^verbatim>\<open>group\<close> and \<^verbatim>\<open>pargroup\<close> are read with
  \<^verbatim>\<open>|| false\<close>.  \<^verbatim>\<open>delete elements[o]\<close> leaves a hole, \<open>None\<close>.
\<close>

record elem =
  el_name :: attrval
  el_val :: string
  el_group :: attrval
  el_pargroup :: attrval

definition buildElementsArray :: "form \<Rightarrow> elem option list" where
  "buildElementsArray caller =
     concat (map (\<lambda>t. map (\<lambda>e. Some
                    \<lparr> el_name = of_attr (getAttribute (attributes e) ''name''),
                      el_val = elem_value e,
                      el_group = js_or (of_attr (getAttribute (attributes e) ''group'')) AFalse,
                      el_pargroup = js_or (of_attr (getAttribute (attributes e) ''pargroup'')) AFalse \<rparr>)
                  (getElementsByTagName caller t))
             input_types)"

text \<open>
  The two statements
  \<^verbatim>\<open>if (!obj[g]) { obj[g] = { }; }  obj[g][n] = v;\<close>
  on an object \<^verbatim>\<open>obj\<close>; the result is the object after them.  An inherited member
  \<^verbatim>\<open>obj[g]\<close> is truthy, and the value is written into that built-in object.  An
  assignment to a property of a string is ignored.
\<close>

definition add_to_group :: "props \<Rightarrow> string \<Rightarrow> string \<Rightarrow> string \<Rightarrow> error + props" where
  "add_to_group obj g n v =
     (case read_prop obj g of
        Inherited \<Rightarrow> Inl (Builtin_member g)
      | Undefined \<Rightarrow> Inr (assign obj g (Obj (assign [] n (Str v))))
      | Own (Obj grp) \<Rightarrow> Inr (assign obj g (Obj (assign grp n (Str v))))
      | Own (Str s) \<Rightarrow>
          (if s = [] then Inr (assign obj g (Obj (assign [] n (Str v)))) else Inr obj))"

text \<open>
  A property read on a string primitive.  Its own properties are \<^verbatim>\<open>length\<close> and the
  indices of its characters; it inherits the members of \<^verbatim>\<open>String.prototype\<close> and of
  \<^verbatim>\<open>Object.prototype\<close>.  The list holds the names that \<^verbatim>\<open>String.prototype\<close> has in one
  engine or another.
\<close>

definition string_members :: "string list" where
  "string_members =
     proto_members @
     [''anchor'', ''at'', ''big'', ''blink'', ''bold'', ''charAt'', ''charCodeAt'', ''codePointAt'',
      ''concat'', ''contains'', ''endsWith'', ''fixed'', ''fontcolor'', ''fontsize'', ''includes'',
      ''indexOf'', ''isWellFormed'', ''italics'', ''lastIndexOf'', ''link'', ''localeCompare'',
      ''match'', ''matchAll'', ''normalize'', ''padEnd'', ''padStart'', ''quote'', ''repeat'',
      ''replace'', ''replaceAll'', ''search'', ''slice'', ''small'', ''split'', ''startsWith'',
      ''strike'', ''sub'', ''substr'', ''substring'', ''sup'', ''toLocaleLowerCase'',
      ''toLocaleUpperCase'', ''toLowerCase'', ''toSource'', ''toUpperCase'', ''toWellFormed'',
      ''trim'', ''trimEnd'', ''trimLeft'', ''trimRight'', ''trimStart'']"

datatype prim_read = PUndefined | PNumber nat | PString string | PInherited

definition string_prop :: "string \<Rightarrow> string \<Rightarrow> prim_read" where
  "string_prop s k =
     (if k = ''length'' then PNumber (length s)
      else if is_index k \<and> dec_val k < int (length s) then PString [s ! nat (dec_val k)]
      else if k \<in> set string_members then PInherited
      else PUndefined)"

text \<open>
  The body of the branch \<^verbatim>\<open>key == elem['pargroup']\<close>, on the value \<open>pv\<close> of
  \<^verbatim>\<open>vals[elem['pargroup']]\<close>; the result is the new value of that property.  On a
  string \<open>pv\<close>, the read \<^verbatim>\<open>pv[group]\<close> gives a number, a character, a built-in
  function or \<^verbatim>\<open>undefined\<close>; the assignments to properties of the string, of the
  number and of the character are ignored, the assignment to a property of
  \<^verbatim>\<open>undefined\<close> throws.
\<close>

definition add_to_pargroup :: "elem \<Rightarrow> jsval \<Rightarrow> error + jsval" where
  "add_to_pargroup el pv =
     (case pv of
        Obj par \<Rightarrow>
          (case add_to_group par (key_of (el_group el)) (key_of (el_name el)) (el_val el) of
             Inl e \<Rightarrow> Inl e
           | Inr par' \<Rightarrow> Inr (Obj par'))
      | Str s \<Rightarrow>
          (case string_prop s (key_of (el_group el)) of
             PUndefined \<Rightarrow> Inl TypeError
           | PInherited \<Rightarrow> Inl (Builtin_member (key_of (el_group el)))
           | PNumber n \<Rightarrow> Inr (Str s)
           | PString c \<Rightarrow> Inr (Str s)))"

text \<open>
  The \<^verbatim>\<open>scan\<close> loop of \<^verbatim>\<open>addElementToValues\<close>, for an element whose \<^verbatim>\<open>pargroup\<close> is
  set.  The second argument is what \<^verbatim>\<open>for (var key in vals)\<close> has still to visit, at
  first all of \<^verbatim>\<open>vals\<close>; the guard \<^verbatim>\<open>vals.hasOwnProperty(key)\<close> throws at the first
  iteration when \<^verbatim>\<open>vals\<close> owns a property of that name, and is true otherwise.  The
  recursive call \<^verbatim>\<open>addElementToValues(elem, vals[key])\<close> passes the same element, so
  it is this loop again, on the child.  The flag \<^verbatim>\<open>added\<close> is the variable shared by
  the closures.
\<close>

function scan :: "elem \<Rightarrow> props \<Rightarrow> bool \<Rightarrow> error + props \<times> bool" where
  "scan el [] added = Inr ([], added)"
| "scan el ((key, v) # rest) added =
     (if map_of ((key, v) # rest) ''hasOwnProperty'' \<noteq> None then Inl TypeError
      else if key = key_of (el_pargroup el) then
        (case add_to_pargroup el v of
           Inl e \<Rightarrow> Inl e
         | Inr v' \<Rightarrow> Inr ((key, v') # rest, True))
      else
        (case v of
           Obj child \<Rightarrow>
             (case scan el child added of
                Inl e \<Rightarrow> Inl e
              | Inr (child', added') \<Rightarrow>
                  (case scan el rest added' of
                     Inl e \<Rightarrow> Inl e
                   | Inr (rest', added'') \<Rightarrow> Inr ((key, Obj child') # rest', added'')))
         | Str s \<Rightarrow>
             (case scan el rest added of
                Inl e \<Rightarrow> Inl e
              | Inr (rest', added') \<Rightarrow> Inr ((key, Str s) # rest', added'))))"
  by pat_completeness auto
termination
  by (relation "measure (\<lambda>(el, vals, added). size_list (size_prod (\<lambda>k. 0) size) vals)") auto

definition addElementToValues :: "elem \<Rightarrow> props \<Rightarrow> bool \<Rightarrow> error + props \<times> bool" where
  "addElementToValues el vals added =
     (if attr_truthy (el_pargroup el) then scan el vals added
      else if attr_truthy (el_group el) then
        (case add_to_group vals (key_of (el_group el)) (key_of (el_name el)) (el_val el) of
           Inl e \<Rightarrow> Inl e
         | Inr vals' \<Rightarrow> Inr (vals', True))
      else Inr (assign vals (key_of (el_name el)) (Str (el_val el)), True))"

text \<open>
  The \<^verbatim>\<open>for\<close> loop of \<^verbatim>\<open>loopOnElements\<close>: one pass over the array.  The result holds
  the array after the deletions, the values and the flag \<^verbatim>\<open>recur\<close>.
\<close>

fun loop_pass ::
  "bool \<Rightarrow> elem option list \<Rightarrow> props \<Rightarrow> bool \<Rightarrow> error + elem option list \<times> props \<times> bool" where
  "loop_pass baseIsSet [] vals recur = Inr ([], vals, recur)"
| "loop_pass baseIsSet (None # rest) vals recur =
     (case loop_pass baseIsSet rest vals recur of
        Inl e \<Rightarrow> Inl e
      | Inr (rest', vals', recur') \<Rightarrow> Inr (None # rest', vals', recur'))"
| "loop_pass baseIsSet (Some el # rest) vals recur =
     (case (if \<not> attr_truthy (el_pargroup el) \<or> (attr_truthy (el_pargroup el) \<and> baseIsSet)
            then addElementToValues el vals False
            else Inr (vals, False)) of
        Inl e \<Rightarrow> Inl e
      | Inr (vals1, added) \<Rightarrow>
          (case loop_pass baseIsSet rest vals1 (if added then True else recur) of
             Inl e \<Rightarrow> Inl e
           | Inr (rest', vals', recur') \<Rightarrow>
               Inr ((if added then None else Some el) # rest', vals', recur')))"

text \<open>The entries of the array that are not holes.\<close>

definition remaining :: "elem option list \<Rightarrow> elem list" where
  "remaining elements = concat (map (\<lambda>e. case e of None \<Rightarrow> [] | Some el \<Rightarrow> [el]) elements)"

text \<open>The guarded call in the body of the loop, with \<^verbatim>\<open>added\<close> reset before it.\<close>

definition try_add :: "bool \<Rightarrow> elem \<Rightarrow> props \<Rightarrow> error + props \<times> bool" where
  "try_add baseIsSet el vals =
     (if \<not> attr_truthy (el_pargroup el) \<or> (attr_truthy (el_pargroup el) \<and> baseIsSet)
      then addElementToValues el vals False else Inr (vals, False))"



text \<open>A pass that sets \<^verbatim>\<open>recur\<close> has deleted an entry: the recursion below ends.\<close>

lemma loop_pass_remaining:
  "loop_pass b els vals r = Inr (els', vals', r') \<Longrightarrow>
     length (remaining els') \<le> length (remaining els) \<and>
     (r' \<and> \<not> r \<longrightarrow> length (remaining els') < length (remaining els)) \<and> (r \<longrightarrow> r')"
proof (induction b els vals r arbitrary: els' vals' r' rule: loop_pass.induct)
  case (1 baseIsSet vals recur)
  then show ?case by simp
next
  case (2 baseIsSet rest vals recur)
  then show ?case by (auto simp: remaining_def split: sum.splits)
next
  case (3 baseIsSet el rest vals recur)
  then show ?case
    by (fastforce simp: remaining_def split: sum.splits if_splits prod.splits)
qed

text \<open>
  \<^verbatim>\<open>loopOnElements(baseIsSet)\<close>, on the array and the values it shares with the other
  closures.  The last component of the result counts the calls of \<^verbatim>\<open>loopOnElements\<close>,
  that is, the passes made; the source does not compute it.
\<close>

function loopOnElements ::
  "bool \<Rightarrow> elem option list \<Rightarrow> props \<Rightarrow> error + elem option list \<times> props \<times> nat" where
  "loopOnElements baseIsSet elements vals =
     (case loop_pass baseIsSet elements vals False of
        Inl e \<Rightarrow> Inl e
      | Inr (elements', vals', recur) \<Rightarrow>
          (if recur then
             (case loopOnElements True elements' vals' of
                Inl e \<Rightarrow> Inl e
              | Inr (elements'', vals'', passes) \<Rightarrow> Inr (elements'', vals'', Suc passes))
           else Inr (elements', vals', 1)))"
  by pat_completeness auto
termination
proof (relation "measure (\<lambda>(baseIsSet, elements, vals). length (remaining elements))", goal_cases)
  case 1
  then show ?case by simp
next
  case (2 baseIsSet elements vals x2 elements' y vals' recur)
  then show ?case
    using loop_pass_remaining[of baseIsSet elements vals False elements' vals' recur]
    by simp
qed

declare loopOnElements.simps [simp del]

text \<open>
  Console output.  Each constructor stands for one call of \<^verbatim>\<open>console.log\<close>:
  \<^item> \<open>Warning_information_loss\<close>: \<^verbatim>\<open>WARNING: potential information loss.\<close>
  \<^item> \<open>Unnecessary_pargroups n\<close>: \<^verbatim>\<open>There are n unnecessary pargroup attributes. ...\<close>
  \<^item> \<open>Pargroups_not_in_hierarchy\<close>: \<^verbatim>\<open>These pargroups do not occur in form's hierarchy:\<close>
  \<^item> \<open>Orphan_pargroup p\<close>: the value \<^verbatim>\<open>orphans[o]['pargroup']\<close>
  \<^item> \<open>Advice_remove_pargroup\<close>: \<^verbatim>\<open>Since they do not specify a parent group, ...\<close>
  \<^item> \<open>Submit_needs_action_and_method\<close>: \<^verbatim>\<open>To submit, the form element needs these
    attributes: ...\<close>
\<close>

datatype console_line =
    Warning_information_loss
  | Unnecessary_pargroups nat
  | Pargroups_not_in_hierarchy
  | Orphan_pargroup attrval
  | Advice_remove_pargroup
  | Submit_needs_action_and_method

definition displayErrors :: "elem option list \<Rightarrow> console_line list" where
  "displayErrors elements =
     (let orphans = remaining elements in
      if length orphans > 0 then
        [Warning_information_loss, Unnecessary_pargroups (length orphans), Pargroups_not_in_hierarchy]
        @ map (\<lambda>orphan. Orphan_pargroup (el_pargroup orphan)) orphans
        @ [Advice_remove_pargroup]
      else [])"

text \<open>
  \<^verbatim>\<open>this.gatherTheValues\<close> of the first generation: the values assigned to
  \<^verbatim>\<open>this.values\<close> and the console output, or the exception that leaves the method.
\<close>

definition gatherTheValues_pargroup :: "form \<Rightarrow> error + props \<times> console_line list" where
  "gatherTheValues_pargroup caller =
     (case loopOnElements False (buildElementsArray caller) [] of
        Inl e \<Rightarrow> Inl e
      | Inr (elements, vals, passes) \<Rightarrow> Inr (vals, displayErrors elements))"

text \<open>A key of the tree, at any depth.\<close>

function key_in_tree :: "string \<Rightarrow> props \<Rightarrow> bool" where
  "key_in_tree k [] = False"
| "key_in_tree k ((key, v) # rest) =
     (key = k \<or> (case v of Obj child \<Rightarrow> key_in_tree k child | Str s \<Rightarrow> False) \<or> key_in_tree k rest)"
  by pat_completeness auto
termination
  by (relation "measure (\<lambda>(k, vals). size_list (size_prod (\<lambda>k. 0) size) vals)") auto

text \<open>The string leaves of a tree, in enumeration order.\<close>

function leaves :: "props \<Rightarrow> string list" where
  "leaves [] = []"
| "leaves ((key, v) # rest) = (case v of Str s \<Rightarrow> [s] | Obj child \<Rightarrow> leaves child) @ leaves rest"
  by pat_completeness auto
termination
  by (relation "measure (size_list (size_prod (\<lambda>k. 0) size))") auto



text \<open>A property named \<open>k\<close>, somewhere in the tree, holds a string.\<close>

function holds_string :: "string \<Rightarrow> props \<Rightarrow> bool" where
  "holds_string k [] = False"
| "holds_string k ((key, v) # rest) =
     ((case v of Str s \<Rightarrow> key = k | Obj child \<Rightarrow> holds_string k child) \<or> holds_string k rest)"
  by pat_completeness auto
termination
  by (relation "measure (\<lambda>(k, vals). size_list (size_prod (\<lambda>k. 0) size) vals)") auto


subsection \<open>The configuration store (third generation)\<close>

datatype confval = CNull | CBool bool | CStr string | CFun string

type_synonym config = "(string \<times> confval) list"

definition default_conf :: config where
  "default_conf =
     [(''elem_attr_trigger'', CStr ''action''),
      (''elem_attr_callback'', CStr ''onreturn''),
      (''elem_attr_fixed'', CStr ''disabled''),
      (''data_transform_func'', CFun ''JSON.stringify''),
      (''unnamed_form_key'', CNull),
      (''log'', CBool False)]"

text \<open>
  Modelled from the spec: \<^verbatim>\<open>Utils.sieve\<close>, a function of the library Utils.js, which
  is not among the sources.  The specification says that \<^verbatim>\<open>setConfig\<close> "merges only
  recognized keys (unrecognized keys are silently dropped)": the result has the keys
  of the first object, each with the value of the second object where that has the
  key.  It is a new object; the first object is not changed.
\<close>

definition sieve :: "config \<Rightarrow> config \<Rightarrow> config" where
  "sieve base given =
     map (\<lambda>(k, v). (k, case map_of given k of Some v' \<Rightarrow> v' | None \<Rightarrow> v)) base"

text \<open>
  The variables \<^verbatim>\<open>conf\<close> and \<^verbatim>\<open>conf_bk\<close>.  No function changes a configuration
  object in place, so the reference kept in \<^verbatim>\<open>conf_bk\<close> is a snapshot.
  \<^verbatim>\<open>makeNewConf\<close> takes the function it calls as \<^verbatim>\<open>Utils.sieve\<close> as its first
  argument.
\<close>

record conf_store =
  conf :: config
  conf_bk :: "config option"

definition makeNewConf ::
  "(config \<Rightarrow> config \<Rightarrow> config) \<Rightarrow> config \<Rightarrow> conf_store \<Rightarrow> conf_store \<times> config" where
  "makeNewConf Utils_sieve conf_obj st =
     (let st1 = st\<lparr>conf_bk := Some (conf st)\<rparr>;
          new_conf = Utils_sieve (conf st1) conf_obj;
          st2 = st1\<lparr>conf := new_conf\<rparr>
      in (st2, conf st2))"

definition resetConfToDefault :: "conf_store \<Rightarrow> conf_store \<times> config" where
  "resetConfToDefault st =
     (case conf_bk st of
        Some bk \<Rightarrow> (let st1 = st\<lparr>conf := bk, conf_bk := None\<rparr> in (st1, conf st1))
      | None \<Rightarrow> (st, conf st))"

subsection \<open>Clearing a form (third generation)\<close>

text \<open>
  \<^verbatim>\<open>clearFormValues(form)\<close>; \<open>fixed\<close> is \<^verbatim>\<open>conf.elem_attr_fixed\<close>.  A collection
  \<^verbatim>\<open>elems\<close> is the list of the positions of its elements in the form.  The loop body
  writes to \<^verbatim>\<open>elems[1]\<close>, which is \<^verbatim>\<open>undefined\<close> in a collection of fewer than two
  elements.
\<close>

definition elems_of_type :: "element list \<Rightarrow> string \<Rightarrow> nat list" where
  "elems_of_type es t = filter (\<lambda>i. tagName (es ! i) = t) [0..<length es]"

fun clear_elems :: "string \<Rightarrow> nat list \<Rightarrow> nat list \<Rightarrow> element list \<Rightarrow> error + element list" where
  "clear_elems fixed elems [] es = Inr es"
| "clear_elems fixed elems (i # todo) es =
     (if \<not> hasAttribute (attributes (es ! i)) fixed then
        (if 1 < length elems
         then clear_elems fixed elems todo (es[elems ! 1 := (es ! (elems ! 1))\<lparr>elem_value := []\<rparr>])
         else Inl TypeError)
      else clear_elems fixed elems todo es)"

fun clear_types :: "string \<Rightarrow> string list \<Rightarrow> element list \<Rightarrow> error + element list" where
  "clear_types fixed [] es = Inr es"
| "clear_types fixed (t # types) es =
     (case clear_elems fixed (elems_of_type es t) (elems_of_type es t) es of
        Inl e \<Rightarrow> Inl e
      | Inr es' \<Rightarrow> clear_types fixed types es')"

definition clearFormValues :: "string \<Rightarrow> form \<Rightarrow> error + form" where
  "clearFormValues fixed f =
     (case clear_types fixed input_types (form_elements f) of
        Inl e \<Rightarrow> Inl e
      | Inr es \<Rightarrow> Inr (f\<lparr>form_elements := es\<rparr>))"


subsection \<open>Submission (second generation)\<close>

text \<open>
  The global object, as far as \<^verbatim>\<open>stringToFunction\<close> reads it: what a name leads to
  is a function (named), a plain object with its properties, or \<^verbatim>\<open>null\<close>.  A read
  of a property of \<^verbatim>\<open>undefined\<close> (\<open>None\<close>) or of \<^verbatim>\<open>null\<close> throws.  A plain object
  inherits the functions of \<^verbatim>\<open>Object.prototype\<close>; a function inherits these and
  \<^verbatim>\<open>call\<close>, \<^verbatim>\<open>apply\<close> and \<^verbatim>\<open>bind\<close>, and has properties of its own
  (\<open>function_fields\<close>) that are not functions.
\<close>

datatype nsval = NFun string | NObj "(string \<times> nsval) list" | NNull

definition function_methods :: "string list" where
  "function_methods = [''call'', ''apply'', ''bind'']"

definition function_fields :: "string list" where
  "function_fields = [''prototype'', ''name'', ''length'', ''caller'', ''arguments'', ''__proto__'']"

definition ns_read :: "nsval option \<Rightarrow> string \<Rightarrow> error + nsval option" where
  "ns_read context k =
     (case context of
        None \<Rightarrow> Inl TypeError
      | Some NNull \<Rightarrow> Inl TypeError
      | Some (NObj ps) \<Rightarrow>
          (case map_of ps k of
             Some v \<Rightarrow> Inr (Some v)
           | None \<Rightarrow>
               if k = ''__proto__'' then Inl (Builtin_member k)
               else if k \<in> set proto_members then Inr (Some (NFun k))
               else Inr None)
      | Some (NFun f) \<Rightarrow>
          (if k \<in> set function_fields then Inl (Builtin_member k)
           else if k \<in> set function_methods \<or> k \<in> set proto_members then Inr (Some (NFun k))
           else Inr None))"

fun ns_walk :: "string list \<Rightarrow> nsval option \<Rightarrow> error + nsval option" where
  "ns_walk [] context = Inr context"
| "ns_walk (n # namespaces) context =
     (case ns_read context n of Inl e \<Rightarrow> Inl e | Inr c \<Rightarrow> ns_walk namespaces c)"

text \<open>\<^verbatim>\<open>stringToFunction(functionName)\<close>; \<open>Inr None\<close> is the result \<^verbatim>\<open>false\<close>.\<close>

definition stringToFunction :: "string \<Rightarrow> nsval \<Rightarrow> error + string option" where
  "stringToFunction functionName window =
     (let namespaces = split_on CHR ''.'' functionName;
          func = last namespaces
      in case ns_walk (butlast namespaces) (Some window) of
           Inl e \<Rightarrow> Inl e
         | Inr context \<Rightarrow>
             (case ns_read context func of
                Inl e \<Rightarrow> Inl e
              | Inr (Some (NFun fn)) \<Rightarrow> Inr (Some fn)
              | Inr other \<Rightarrow> Inr None))"

datatype callback = Callback_null | Callback_false | Callback_function string

record request =
  req_method :: string
  req_url :: string
  req_params :: jsval
  req_callback :: callback

text \<open>
  What a call of \<^verbatim>\<open>handleSubmission\<close> does: the lines logged, the calls made to the
  functions of \<^verbatim>\<open>Http\<close>, what ends the call before its last statement if anything
  does, and the form assigned to \<^verbatim>\<open>last_action_form\<close> if any.  The call is ended
  by the exception thrown; the field \<open>thrown\<close> also holds the built-in member at
  which the run is followed no further, and the record then tells what the call has
  done up to that point.
\<close>

record outcome =
  console :: "console_line list"
  sent :: "request list"
  thrown :: "error option"
  last_action_form :: "form option"

text \<open>
  The call \<^verbatim>\<open>Http[method]({...})\<close>.  \<open>Http\<close> lists the names of the functions of the
  transport object, a plain object (Http.js is not among the sources).  Under
  another name the call reaches a function of \<^verbatim>\<open>Object.prototype\<close>, which sends
  nothing and returns, or throws when it wants a function as its second argument; or
  it finds nothing to call and throws.
\<close>

definition call_Http :: "string list \<Rightarrow> string \<Rightarrow> request \<Rightarrow> error + request list" where
  "call_Http Http method req =
     (if method \<in> set Http then Inr [req]
      else if method \<in> set [''__proto__'', ''__defineGetter__'', ''__defineSetter__''] then Inl TypeError
      else if method \<in> set proto_members then Inr []
      else Inl TypeError)"

text \<open>
  \<^verbatim>\<open>handleSubmission(form)\<close>; the three values after \<open>window\<close> are
  \<^verbatim>\<open>conf.elem_callback_attr\<close>, \<^verbatim>\<open>conf.data_transform_func\<close> and
  \<^verbatim>\<open>conf.unnamed_form_key\<close>.  \<^verbatim>\<open>gatherTheValues\<close>, which \<^verbatim>\<open>toObject\<close> calls, assigns
  \<^verbatim>\<open>last_action_form\<close> before it groups the values.
\<close>

definition handleSubmission ::
  "string list \<Rightarrow> nsval \<Rightarrow> string \<Rightarrow> (jsval \<Rightarrow> jsval) option \<Rightarrow> attrval \<Rightarrow> form \<Rightarrow> outcome option" where
  "handleSubmission Http window elem_callback_attr data_transform_func unnamed_form_key f =
     (let url = of_attr (getAttribute (form_attributes f) ''action'');
          method = of_attr (getAttribute (form_attributes f) ''method'')
      in if attr_truthy url \<and> attr_truthy method then
           (case (let chk = of_attr (getAttribute (form_attributes f) elem_callback_attr)
                  in if attr_truthy chk then
                       (case stringToFunction (key_of chk) window of
                          Inl e \<Rightarrow> Inl e
                        | Inr None \<Rightarrow> Inr Callback_false
                        | Inr (Some fn) \<Rightarrow> Inr (Callback_function fn))
                     else Inr Callback_null) of
              Inl e \<Rightarrow>
                Some \<lparr> console = [], sent = [], thrown = Some e, last_action_form = None \<rparr>
            | Inr func \<Rightarrow>
                (case toObject unnamed_form_key f data_transform_func of
                   None \<Rightarrow> None
                 | Some (Inl e) \<Rightarrow>
                     Some \<lparr> console = [], sent = [], thrown = Some e, last_action_form = Some f \<rparr>
                 | Some (Inr vals) \<Rightarrow>
                     (case call_Http Http (key_of method)
                             \<lparr> req_method = key_of method, req_url = key_of url,
                               req_params = vals, req_callback = func \<rparr> of
                        Inl e \<Rightarrow>
                          Some \<lparr> console = [], sent = [], thrown = Some e,
                                 last_action_form = Some f \<rparr>
                      | Inr reqs \<Rightarrow>
                          Some \<lparr> console = [], sent = reqs, thrown = None,
                                 last_action_form = Some f \<rparr>)))
         else
           Some \<lparr> console = [Submit_needs_action_and_method], sent = [], thrown = None,
                  last_action_form = None \<rparr>)"

section \<open>Properties\<close>

subsection \<open>Objects and the colon-path builder\<close>

text \<open>
  The examples of the specification: the control \<^verbatim>\<open>x\<close> of the group \<^verbatim>\<open>a:b\<close>, alone
  and beside the control \<^verbatim>\<open>y\<close> of the group \<^verbatim>\<open>a:c\<close>; and two objects merged key
  by key.
\<close>

lemma colon_path_examples:
  "gatherTheValues
     \<lparr>form_attributes = [], form_elements =
        [\<lparr>tagName = ''input'', attributes = [(''name'', ''x''), (''group'', ''a:b'')], elem_value = ''v''\<rparr>]\<rparr>
     = Some (Inr [(''a'', Obj [(''b'', Obj [(''x'', Str ''v'')])])]) \<and>
   gatherTheValues
     \<lparr>form_attributes = [], form_elements =
        [\<lparr>tagName = ''input'', attributes = [(''name'', ''x''), (''group'', ''a:b'')], elem_value = ''v''\<rparr>,
         \<lparr>tagName = ''input'', attributes = [(''name'', ''y''), (''group'', ''a:c'')], elem_value = ''w''\<rparr>]\<rparr>
     = Some (Inr [(''a'', Obj [(''b'', Obj [(''x'', Str ''v'')]), (''c'', Obj [(''y'', Str ''w'')])])]) \<and>
   mergeObjects [(''g'', Obj [(''a'', Str ''1'')]), (''k'', Str ''0'')]
                [(''g'', Obj [(''b'', Str ''2'')]), (''k'', Obj [(''c'', Str ''3'')])]
     = Inr [(''g'', Obj [(''a'', Str ''1''), (''b'', Str ''2'')]), (''k'', Obj [(''c'', Str ''3'')])]"
  by code_simp

text \<open>
  Claim C1 does not hold for every record with a group.  Below, the second control
  belongs to the group \<^verbatim>\<open>g\<close> that the first has created, and is named
  \<^verbatim>\<open>hasOwnProperty\<close>: \<^verbatim>\<open>mergeObjects\<close> recurs into the group with
  \<^verbatim>\<open>{hasOwnProperty: "2"}\<close> as its second argument, and its guard
  \<^verbatim>\<open>obj2.hasOwnProperty(key)\<close> calls that string: the build throws, and the record
  is not merged.  A control named \<^verbatim>\<open>__proto__\<close> is wrapped as the empty object, since
  \<^verbatim>\<open>form_val['__proto__'] = value\<close> creates no property: the group is made, the value
  is lost.
\<close>

theorem C1_group_record_not_merged:
  "gatherTheValues
     \<lparr>form_attributes = [], form_elements =
        [\<lparr>tagName = ''input'', attributes = [(''name'', ''a''), (''group'', ''g'')], elem_value = ''1''\<rparr>,
         \<lparr>tagName = ''input'', attributes = [(''name'', ''hasOwnProperty''), (''group'', ''g'')],
           elem_value = ''2''\<rparr>]\<rparr>
     = Some (Inl TypeError) \<and>
   gatherTheValues
     \<lparr>form_attributes = [], form_elements =
        [\<lparr>tagName = ''input'', attributes = [(''name'', ''__proto__''), (''group'', ''g'')],
           elem_value = ''1''\<rparr>]\<rparr>
     = Some (Inr [(''g'', Obj [])])"
  by code_simp

text \<open>
  Claim C3 does not hold for every key.  Where the incoming object owns a property
  \<^verbatim>\<open>constructor\<close>, the test \<^verbatim>\<open>obj2[key].constructor == Object\<close> reads that property
  and fails: both values under \<^verbatim>\<open>g\<close> are objects, yet the merge does not recur, the
  incoming object replaces the existing one and \<^verbatim>\<open>a\<close> is lost.  The same happens
  where the existing object owns such a property.  And where the incoming object
  owns a property \<^verbatim>\<open>hasOwnProperty\<close>, the guard of the loop calls its value: the
  merge throws, and nothing is replaced.
\<close>

theorem C3_merge_member_names:
  "mergeObjects [(''g'', Obj [(''a'', Str ''1'')])] [(''g'', Obj [(''constructor'', Str ''2'')])]
     = Inr [(''g'', Obj [(''constructor'', Str ''2'')])] \<and>
   mergeObjects [(''g'', Obj [(''constructor'', Str ''1'')])] [(''g'', Obj [(''b'', Str ''2'')])]
     = Inr [(''g'', Obj [(''b'', Str ''2'')])] \<and>
   mergeObjects [(''k'', Str ''0'')] [(''hasOwnProperty'', Str ''x'')] = Inl TypeError"
  by code_simp

text \<open>
  Claim C10 does not hold for every control without a name.  The control below has
  the group \<^verbatim>\<open>hasOwnProperty:x\<close>: the object built for it is
  \<^verbatim>\<open>{hasOwnProperty: {x: {false: "1"}}}\<close>, and the guard of \<^verbatim>\<open>mergeObjects\<close> calls the
  object it finds under that name: an error is raised.  With the group \<^verbatim>\<open>__proto__\<close>
  the test \<^verbatim>\<open>keys[0] in ret\<close> of \<^verbatim>\<open>buildNestedObject\<close> holds, and the value is merged
  into \<^verbatim>\<open>Object.prototype\<close>, under the key \<^verbatim>\<open>false\<close>, not into the tree.
\<close>

theorem C10_absent_name_not_inserted:
  "elemToObject \<lparr>tagName = ''input'', attributes = [(''group'', ''hasOwnProperty:x'')], elem_value = ''1''\<rparr>
     = \<lparr>vo_value = ''1'', vo_name = AFalse, vo_group = AStr ''hasOwnProperty:x''\<rparr> \<and>
   gatherTheValues
     \<lparr>form_attributes = [], form_elements =
        [\<lparr>tagName = ''input'', attributes = [(''group'', ''hasOwnProperty:x'')], elem_value = ''1''\<rparr>]\<rparr>
     = Some (Inl TypeError) \<and>
   gatherTheValues
     \<lparr>form_attributes = [], form_elements =
        [\<lparr>tagName = ''input'', attributes = [(''group'', ''__proto__'')], elem_value = ''1''\<rparr>]\<rparr>
     = Some (Inl (Builtin_member ''__proto__''))"
  by code_simp

subsection \<open>Wrapping\<close>

text \<open>
  Claim C4, as stated, fails in three ways.  On a form whose \<^verbatim>\<open>name\<close> attribute is
  present and empty, \<^verbatim>\<open>toObject\<close> tests the attribute for truthiness, so the empty
  name is passed over and the \<^verbatim>\<open>id\<close> becomes the key.  With a transform function,
  what is wrapped is not the tree but the result of the function on the tree.  And
  under the key \<^verbatim>\<open>__proto__\<close> the assignment \<^verbatim>\<open>vals[key] = valobj\<close> creates no
  property.  (The transform functions below are constant.)
\<close>

theorem C4_wrapping_counterexample:
  "getAttribute (form_attributes \<lparr>form_attributes = [(''name'', ''''), (''id'', ''f'')], form_elements = []\<rparr>)
       ''name'' = Some '''' \<and>
   toObject ANull \<lparr>form_attributes = [(''name'', ''''), (''id'', ''f'')], form_elements = []\<rparr> None
       = Some (Inr (Obj [(''f'', Obj [])])) \<and>
   gatherTheValues \<lparr>form_attributes = [(''name'', ''f'')], form_elements = []\<rparr> = Some (Inr []) \<and>
   toObject ANull \<lparr>form_attributes = [(''name'', ''f'')], form_elements = []\<rparr> (Some (\<lambda>v. Str ''{}''))
       = Some (Inr (Obj [(''f'', Str ''{}'')])) \<and>
   toObject ANull \<lparr>form_attributes = [(''name'', ''__proto__'')], form_elements = []\<rparr>
       (Some (\<lambda>v. Str ''{}''))
       = Some (Inr (Obj []))"
  by code_simp

text \<open>
  Claim C4, amended.  For a form whose values are gathered into the tree \<open>T\<close>, and
  with \<open>V\<close> the tree after the transform (the tree itself when no transform function
  is configured): the key is the \<^verbatim>\<open>name\<close> attribute when it is present and not empty,
  else the \<^verbatim>\<open>id\<close> attribute when it is present and not empty, else the fallback key
  when that is truthy, and the result is \<^verbatim>\<open>{key: V}\<close>, for a key other than
  \<^verbatim>\<open>__proto__\<close>; when there is no such name or id and the fallback key is not truthy
  (\<^verbatim>\<open>null\<close>, \<^verbatim>\<open>false\<close> or the empty string) the result is \<open>V\<close> itself.
\<close>

theorem C4_wrapping:
  assumes "gatherTheValues f = Some (Inr T)"
  shows
    "(let V = (case transform of Some t \<Rightarrow> t (Obj T) | None \<Rightarrow> Obj T);
          name = getAttribute (form_attributes f) ''name'';
          ident = getAttribute (form_attributes f) ''id''
      in (\<forall>n. name = Some n \<and> n \<noteq> [] \<and> n \<noteq> ''__proto__'' \<longrightarrow>
            toObject unnamed_form_key f transform = Some (Inr (Obj [(n, V)]))) \<and>
         (\<forall>i. (name = None \<or> name = Some []) \<and> ident = Some i \<and> i \<noteq> [] \<and> i \<noteq> ''__proto__'' \<longrightarrow>
            toObject unnamed_form_key f transform = Some (Inr (Obj [(i, V)]))) \<and>
         ((name = None \<or> name = Some []) \<and> (ident = None \<or> ident = Some []) \<and>
          attr_truthy unnamed_form_key \<and> key_of unnamed_form_key \<noteq> ''__proto__'' \<longrightarrow>
            toObject unnamed_form_key f transform
              = Some (Inr (Obj [(key_of unnamed_form_key, V)]))) \<and>
         ((name = None \<or> name = Some []) \<and> (ident = None \<or> ident = Some []) \<and>
          \<not> attr_truthy unnamed_form_key \<longrightarrow>
            toObject unnamed_form_key f transform = Some (Inr V)))"
  using assms
  by (cases "getAttribute (form_attributes f) ''name''";
      cases "getAttribute (form_attributes f) ''id''"; cases unnamed_form_key)
     (auto simp: toObject_def js_or_def put_def assign_def Let_def)

theorem C4_wrapping_witness:
  "toObject ANull \<lparr>form_attributes = [(''name'', ''new-user'')],
                   form_elements = [\<lparr>tagName = ''input'', attributes = [(''name'', ''email'')],
                                     elem_value = ''what@evv.err''\<rparr>]\<rparr> None
     = Some (Inr (Obj [(''new-user'', Obj [(''email'', Str ''what@evv.err'')])])) \<and>
   toObject ANull \<lparr>form_attributes = [(''id'', ''f1'')],
                   form_elements = [\<lparr>tagName = ''input'', attributes = [(''name'', ''email'')],
                                     elem_value = ''what@evv.err''\<rparr>]\<rparr> None
     = Some (Inr (Obj [(''f1'', Obj [(''email'', Str ''what@evv.err'')])])) \<and>
   toObject (AStr ''json'') \<lparr>form_attributes = [],
                   form_elements = [\<lparr>tagName = ''input'', attributes = [(''name'', ''email'')],
                                     elem_value = ''what@evv.err''\<rparr>]\<rparr> None
     = Some (Inr (Obj [(''json'', Obj [(''email'', Str ''what@evv.err'')])])) \<and>
   toObject AFalse \<lparr>form_attributes = [],
                   form_elements = [\<lparr>tagName = ''input'', attributes = [(''name'', ''email'')],
                                     elem_value = ''what@evv.err''\<rparr>]\<rparr> None
     = Some (Inr (Obj [(''email'', Str ''what@evv.err'')]))"
proof -
  let ?es = "[\<lparr>tagName = ''input'', attributes = [(''name'', ''email'')], elem_value = ''what@evv.err''\<rparr>]"
  have g: "gatherTheValues \<lparr>form_attributes = a, form_elements = ?es\<rparr>
             = Some (Inr [(''email'', Str ''what@evv.err'')])" for a
    by (simp add: gatherTheValues_def groupValues_def elemsToObjs_def getElementsByTagName_def
          input_types_def elemToObject_def getAttribute_def js_or_def assign_def)
  show ?thesis
    using C4_wrapping[OF g[of "[(''name'', ''new-user'')]"], of None ANull]
      C4_wrapping[OF g[of "[(''id'', ''f1'')]"], of None ANull]
      C4_wrapping[OF g[of "[]"], of None "AStr ''json''"]
      C4_wrapping[OF g[of "[]"], of None AFalse]
    by (simp add: getAttribute_def)
qed

subsection \<open>The scan for a parent group\<close>

lemma scan_added:
  "scan el vals a = Inr (vals', a') \<Longrightarrow> a' = (a \<or> key_in_tree (key_of (el_pargroup el)) vals)"
proof (induction el vals a arbitrary: vals' a' rule: scan.induct)
  case (1 el added)
  then show ?case by simp
next
  case (2 el key v rest added)
  from "2.prems" have nh: "\<not> map_of ((key, v) # rest) ''hasOwnProperty'' \<noteq> None"
    by (auto split: if_splits)
  show ?case
  proof (cases "key = key_of (el_pargroup el)")
    case True
    with "2.prems" show ?thesis by (auto split: sum.splits if_splits)
  next
    case False
    show ?thesis
    proof (cases v)
      case (Str s)
      with False nh "2.prems" obtain rest' where r: "scan el rest added = Inr (rest', a')"
        by (auto split: sum.splits prod.splits if_splits)
      from "2.IH"(1)[OF nh False Str r] False Str show ?thesis by simp
    next
      case (Obj child)
      with False nh "2.prems" obtain child' a1 rest' where
        c: "scan el child added = Inr (child', a1)" and r: "scan el rest a1 = Inr (rest', a')"
        by (auto split: sum.splits prod.splits if_splits)
      from "2.IH"(2)[OF nh False Obj c]
      have a1: "a1 = (added \<or> key_in_tree (key_of (el_pargroup el)) child)" .
      from "2.IH"(3)[OF nh False Obj c refl r]
      have "a' = (a1 \<or> key_in_tree (key_of (el_pargroup el)) rest)" .
      with a1 False Obj show ?thesis by auto
    qed
  qed
qed

lemma scan_unchanged:
  "scan el vals a = Inr (vals', a') \<Longrightarrow> \<not> key_in_tree (key_of (el_pargroup el)) vals \<Longrightarrow> vals' = vals"
proof (induction el vals a arbitrary: vals' a' rule: scan.induct)
  case (1 el added)
  then show ?case by simp
next
  case (2 el key v rest added)
  from "2.prems" have nh: "\<not> map_of ((key, v) # rest) ''hasOwnProperty'' \<noteq> None"
    by (auto split: if_splits)
  from "2.prems"(2) have False: "key \<noteq> key_of (el_pargroup el)" by auto
  show ?case
  proof (cases v)
    case (Str s)
    with False nh "2.prems" obtain rest' where r: "scan el rest added = Inr (rest', a')"
      and v: "vals' = (key, Str s) # rest'"
      by (auto split: sum.splits prod.splits if_splits)
    from "2.prems"(2) have nr: "\<not> key_in_tree (key_of (el_pargroup el)) rest" by auto
    from "2.IH"(1)[OF nh False Str r nr] v Str show ?thesis by simp
  next
    case (Obj child)
    with False nh "2.prems" obtain child' a1 rest' where
      c: "scan el child added = Inr (child', a1)" and r: "scan el rest a1 = Inr (rest', a')"
      and v: "vals' = (key, Obj child') # rest'"
      by (auto split: sum.splits prod.splits if_splits)
    from "2.prems"(2) Obj have nc: "\<not> key_in_tree (key_of (el_pargroup el)) child"
      and nr: "\<not> key_in_tree (key_of (el_pargroup el)) rest" by auto
    from "2.IH"(2)[OF nh False Obj c nc] "2.IH"(3)[OF nh False Obj c refl r nr] v Obj
    show ?thesis by simp
  qed
qed

lemma addElementToValues_no_pargroup:
  "\<not> attr_truthy (el_pargroup el) \<Longrightarrow> addElementToValues el vals a = Inr (vals', a') \<Longrightarrow> a'"
  unfolding addElementToValues_def
  by (auto split: if_splits sum.splits)

lemma addElementToValues_added:
  "attr_truthy (el_pargroup el) \<Longrightarrow> addElementToValues el vals False = Inr (vals', a') \<Longrightarrow>
     a' = key_in_tree (key_of (el_pargroup el)) vals \<and> (\<not> a' \<longrightarrow> vals' = vals)"
  unfolding addElementToValues_def
  using scan_added[of el vals False vals' a'] scan_unchanged[of el vals False vals' a']
  by auto

subsection \<open>One pass\<close>

lemma loop_pass_Some:
  "loop_pass b (Some el # rest) vals r =
     (case try_add b el vals of
        Inl e \<Rightarrow> Inl e
      | Inr (vals1, added) \<Rightarrow>
          (case loop_pass b rest vals1 (if added then True else r) of
             Inl e \<Rightarrow> Inl e
           | Inr (rest', vals', recur') \<Rightarrow>
               Inr ((if added then None else Some el) # rest', vals', recur')))"
  by (simp add: try_add_def)

lemma try_add_not_added:
  assumes "try_add b el vals = Inr (vals1, False)"
  shows "vals1 = vals" and "attr_truthy (el_pargroup el)"
    and "b \<Longrightarrow> \<not> key_in_tree (key_of (el_pargroup el)) vals"
proof -
  show p: "attr_truthy (el_pargroup el)"
  proof (rule ccontr)
    assume n: "\<not> attr_truthy (el_pargroup el)"
    with assms have "addElementToValues el vals False = Inr (vals1, False)"
      by (simp add: try_add_def)
    from addElementToValues_no_pargroup[OF n this] show False by simp
  qed
  show "vals1 = vals"
  proof (cases b)
    case True
    with assms p have "addElementToValues el vals False = Inr (vals1, False)"
      by (simp add: try_add_def)
    from addElementToValues_added[OF p this] show ?thesis by simp
  next
    case False
    with assms p show ?thesis by (simp add: try_add_def)
  qed
  show "\<not> key_in_tree (key_of (el_pargroup el)) vals" if b
  proof -
    from assms p that have "addElementToValues el vals False = Inr (vals1, False)"
      by (simp add: try_add_def)
    from addElementToValues_added[OF p this] show ?thesis by simp
  qed
qed

lemma try_add_added:
  "try_add b el vals = Inr (vals1, True) \<Longrightarrow> attr_truthy (el_pargroup el) \<Longrightarrow>
     b \<and> key_in_tree (key_of (el_pargroup el)) vals"
  using addElementToValues_added[of el vals vals1 True]
  by (auto simp: try_add_def split: if_splits)



lemma loop_pass_all_pargroup:
  "loop_pass b els vals r = Inr (els', vals', r') \<Longrightarrow>
     \<forall>el \<in> set (remaining els'). attr_truthy (el_pargroup el)"
proof (induction els arbitrary: vals r els' vals' r')
  case Nil
  then show ?case by (simp add: remaining_def)
next
  case (Cons e rest)
  show ?case
  proof (cases e)
    case None
    with Cons.prems obtain rest' where r: "loop_pass b rest vals r = Inr (rest', vals', r')"
      and e: "els' = None # rest'"
      by (auto split: sum.splits prod.splits)
    from Cons.IH[OF r] e None show ?thesis by (simp add: remaining_def)
  next
    case (Some el)
    from Cons.prems(1)[unfolded Some loop_pass_Some] obtain vals1 added rest' where
      t: "try_add b el vals = Inr (vals1, added)" and
      r: "loop_pass b rest vals1 (if added then True else r) = Inr (rest', vals', r')"
      and e: "els' = (if added then None else Some el) # rest'"
      by (auto split: sum.splits prod.splits)
    have "attr_truthy (el_pargroup el)" if "\<not> added"
      using try_add_not_added(2)[of b el vals vals1] t that by simp
    with Cons.IH[OF r] e Some show ?thesis by (auto simp: remaining_def)
  qed
qed



subsection \<open>The repeated passes\<close>













subsection \<open>What a call adds to the tree\<close>








lemma holds_string_child:
  "map_of obj k' = Some (Obj child) \<Longrightarrow> holds_string k child \<Longrightarrow> holds_string k obj"
  by (induction obj) (auto split: if_splits)





subsection \<open>The keys of the tree\<close>






















text \<open>
  Claim C9 does not hold of the first generation.  The scan leaves its loop at a
  match, but a match found by a recursive call does not end the loops of the callers:
  they go on to the next properties and add the element again wherever its
  \<^verbatim>\<open>pargroup\<close> occurs.  Below, the value \<^verbatim>\<open>3\<close> of the fourth control, whose \<^verbatim>\<open>pargroup\<close>
  is \<^verbatim>\<open>x\<close>, becomes a leaf under \<^verbatim>\<open>a.x.g\<close> and under \<^verbatim>\<open>x.g\<close>.
\<close>

theorem C9_duplicate_leaf:
  "gatherTheValues_pargroup
     \<lparr>form_attributes = [], form_elements =
        [\<lparr>tagName = ''input'', attributes = [(''name'', ''m''), (''group'', ''a'')], elem_value = ''0''\<rparr>,
         \<lparr>tagName = ''input'', attributes = [(''name'', ''n''), (''group'', ''x'')], elem_value = ''1''\<rparr>,
         \<lparr>tagName = ''input'', attributes = [(''name'', ''k''), (''group'', ''x''), (''pargroup'', ''a'')],
           elem_value = ''2''\<rparr>,
         \<lparr>tagName = ''input'', attributes = [(''name'', ''j''), (''group'', ''g''), (''pargroup'', ''x'')],
           elem_value = ''3''\<rparr>]\<rparr>
     = Inr ([(''a'', Obj [(''m'', Str ''0''),
                          (''x'', Obj [(''k'', Str ''2''), (''g'', Obj [(''j'', Str ''3'')])])]),
             (''x'', Obj [(''n'', Str ''1''), (''g'', Obj [(''j'', Str ''3'')])])], []) \<and>
   leaves [(''a'', Obj [(''m'', Str ''0''),
                          (''x'', Obj [(''k'', Str ''2''), (''g'', Obj [(''j'', Str ''3'')])])]),
             (''x'', Obj [(''n'', Str ''1''), (''g'', Obj [(''j'', Str ''3'')])])]
     = [''0'', ''2'', ''3'', ''1'', ''3'']"
  by code_simp
subsection \<open>The configuration store\<close>

lemma map_of_sieve:
  "map_of (sieve base given) k =
     (case map_of base k of
        None \<Rightarrow> None
      | Some v \<Rightarrow> (case map_of given k of Some v' \<Rightarrow> Some v' | None \<Rightarrow> Some v))"
  by (induction base) (auto simp: sieve_def split: option.splits)

text \<open>
  Claim C6.  \<^verbatim>\<open>setConf\<close> returns the new active configuration, which is the sieve of
  the previous one and the given object, and the previous configuration is the
  backup.  A following \<^verbatim>\<open>resetConf\<close> makes the previous configuration active again,
  returns it and empties the backup; a second \<^verbatim>\<open>resetConf\<close> changes nothing and
  returns the active configuration.  This holds whatever \<^verbatim>\<open>Utils.sieve\<close> returns.  The
  sieve as the specification describes it has the keys of the previous configuration,
  in the same order, each with the given value where one is given, and no other key.
\<close>

theorem C6_config_round_trip:
  "(let st1 = fst (makeNewConf Utils_sieve conf_obj st);
        st2 = fst (resetConfToDefault st1)
    in snd (makeNewConf Utils_sieve conf_obj st) = conf st1 \<and>
       conf st1 = Utils_sieve (conf st) conf_obj \<and>
       conf_bk st1 = Some (conf st) \<and>
       conf st2 = conf st \<and>
       snd (resetConfToDefault st1) = conf st \<and>
       conf_bk st2 = None \<and>
       resetConfToDefault st2 = (st2, conf st2)) \<and>
   map fst (sieve (conf st) conf_obj) = map fst (conf st) \<and>
   map_of (sieve (conf st) conf_obj) k =
     (case map_of (conf st) k of
        None \<Rightarrow> None
      | Some v \<Rightarrow> (case map_of conf_obj k of Some v' \<Rightarrow> Some v' | None \<Rightarrow> Some v))"
proof -
  have k: "map fst (sieve base given) = map fst base" for base given
    by (induction base) (auto simp: sieve_def)
  show ?thesis
    by (simp add: makeNewConf_def resetConfToDefault_def Let_def k map_of_sieve)
qed

theorem C6_config_round_trip_witness:
  "conf (fst (makeNewConf sieve [(''log'', CBool True), (''colour'', CStr ''red'')]
                \<lparr>conf = default_conf, conf_bk = None\<rparr>))
     = [(''elem_attr_trigger'', CStr ''action''),
        (''elem_attr_callback'', CStr ''onreturn''),
        (''elem_attr_fixed'', CStr ''disabled''),
        (''data_transform_func'', CFun ''JSON.stringify''),
        (''unnamed_form_key'', CNull),
        (''log'', CBool True)] \<and>
   conf (fst (resetConfToDefault (fst (makeNewConf sieve [(''log'', CBool True), (''colour'', CStr ''red'')]
                \<lparr>conf = default_conf, conf_bk = None\<rparr>)))) = default_conf"
  using C6_config_round_trip[of sieve "[(''log'', CBool True), (''colour'', CStr ''red'')]"
      "\<lparr>conf = default_conf, conf_bk = None\<rparr>" "''log''"]
  by (simp add: Let_def sieve_def default_conf_def)

subsection \<open>Clearing\<close>

text \<open>
  Claim C8 does not hold of \<^verbatim>\<open>clearFormValues\<close>: the loop body writes to
  \<^verbatim>\<open>elems[1]\<close>, not to \<^verbatim>\<open>elems[i]\<close>.  In a form of two inputs, the second one fixed,
  the first keeps its value and the fixed one is cleared; in a form of one input the
  write throws.
\<close>

theorem C8_clears_wrong_element:
  "clearFormValues ''disabled''
     \<lparr>form_attributes = [], form_elements =
        [\<lparr>tagName = ''input'', attributes = [(''name'', ''email'')], elem_value = ''what@evv.err''\<rparr>,
         \<lparr>tagName = ''input'', attributes = [(''name'', ''id''), (''disabled'', '''')], elem_value = ''42''\<rparr>]\<rparr>
     = Inr \<lparr>form_attributes = [], form_elements =
        [\<lparr>tagName = ''input'', attributes = [(''name'', ''email'')], elem_value = ''what@evv.err''\<rparr>,
         \<lparr>tagName = ''input'', attributes = [(''name'', ''id''), (''disabled'', '''')], elem_value = ''''\<rparr>]\<rparr> \<and>
   clearFormValues ''disabled''
     \<lparr>form_attributes = [], form_elements =
        [\<lparr>tagName = ''input'', attributes = [(''name'', ''email'')], elem_value = ''what@evv.err''\<rparr>]\<rparr>
     = Inl TypeError"
  by code_simp

subsection \<open>Submission\<close>

text \<open>
  Claim C7 does not hold of \<^verbatim>\<open>handleSubmission\<close> whenever both attributes are
  present.  The transport object has the functions \<^verbatim>\<open>get\<close> and \<^verbatim>\<open>post\<close>; the
  function calls \<^verbatim>\<open>Http[method]\<close> with the attribute as it is written, so for
  \<^verbatim>\<open>method="POST"\<close> there is nothing to call: a \<^verbatim>\<open>TypeError\<close> leaves the function and
  no request is sent.  The first generation lower-cases the attribute before the
  call.  And for a callback attribute \<^verbatim>\<open>app.done\<close> on a page without an object
  \<^verbatim>\<open>app\<close>, \<^verbatim>\<open>stringToFunction\<close> reads a property of \<^verbatim>\<open>undefined\<close> and throws, where
  the comment above the call says that it returns \<^verbatim>\<open>false\<close>; again no request is
  sent.  With the attributes \<^verbatim>\<open>method="post"\<close> and no callback the same form is sent.
\<close>

theorem C7_submission_throws:
  "handleSubmission [''get'', ''post''] (NObj []) ''onreturn'' transform ANull
     \<lparr>form_attributes = [(''action'', ''/u''), (''method'', ''POST'')], form_elements = []\<rparr>
     = Some \<lparr>console = [], sent = [], thrown = Some TypeError,
             last_action_form = Some \<lparr>form_attributes = [(''action'', ''/u''), (''method'', ''POST'')],
                                       form_elements = []\<rparr>\<rparr> \<and>
   handleSubmission [''get'', ''post''] (NObj []) ''onreturn'' transform ANull
     \<lparr>form_attributes = [(''action'', ''/u''), (''method'', ''post''), (''onreturn'', ''app.done'')],
      form_elements = []\<rparr>
     = Some \<lparr>console = [], sent = [], thrown = Some TypeError, last_action_form = None\<rparr> \<and>
   handleSubmission [''get'', ''post''] (NObj []) ''onreturn'' transform ANull
     \<lparr>form_attributes = [(''action'', ''/u''), (''method'', ''post'')], form_elements = []\<rparr>
     = Some \<lparr>console = [],
             sent = [\<lparr>req_method = ''post'', req_url = ''/u'',
                      req_params = (case transform of Some t \<Rightarrow> t (Obj []) | None \<Rightarrow> Obj []),
                      req_callback = Callback_null\<rparr>],
             thrown = None,
             last_action_form = Some \<lparr>form_attributes = [(''action'', ''/u''), (''method'', ''post'')],
                                       form_elements = []\<rparr>\<rparr>"
  by (simp add: handleSubmission_def toObject_def gatherTheValues_def groupValues_def
        elemsToObjs_def getElementsByTagName_def input_types_def getAttribute_def js_or_def
        call_Http_def proto_members_def stringToFunction_def ns_read_def Let_def)

end
